theory Spec2Isabelle
  imports Complex_Main
begin

section \<open>JavaScript values\<close>

text \<open>
  A JavaScript number is an IEEE double: a finite value, \<open>NaN\<close>, \<open>Infinity\<close> or \<open>-Infinity\<close>.
  A finite double is modelled by the rational it denotes. The two zeros \<open>+0\<close> and \<open>-0\<close> are one
  value \<open>Fin 0\<close> (the program compares zeros with \<open>!==\<close> and \<open>>\<close> only, which do not tell them
  apart). Rounding of the mantissa is not modelled: a finite quotient is the exact rational.
  Overflow is modelled: a quotient whose magnitude reaches \<open>2^1024 - 2^970\<close> is an infinity,
  which is where round-to-nearest leaves the finite doubles.
\<close>

datatype jsnum = Fin rat | NaN | PosInf | NegInf

text \<open>
  The values a payload decoded from JSON (or a missing property) can be. An object is the list
  of its own properties, looked up by key with the first entry winning.
\<close>

datatype jsval =
    Undefined
  | Null
  | Bool bool
  | Num jsnum
  | Str string
  | Arr "jsval list"
  | Obj "(string \<times> jsval) list"

text \<open>\<open>typeof v\<close>.\<close>

fun typeof :: "jsval \<Rightarrow> string" where
  "typeof Undefined = ''undefined''"
| "typeof Null = ''object''"
| "typeof (Bool b) = ''boolean''"
| "typeof (Num n) = ''number''"
| "typeof (Str s) = ''string''"
| "typeof (Arr xs) = ''object''"
| "typeof (Obj kvs) = ''object''"

text \<open>
  \<open>v?.key\<close>: \<open>undefined\<close> on \<open>null\<close> and \<open>undefined\<close>, the property otherwise. The program reads
  the keys \<open>pageviews\<close>, \<open>visitors\<close>, \<open>visits\<close>, \<open>bounces\<close>, \<open>totaltime\<close>, \<open>value\<close> and \<open>prev\<close>
  only; booleans, numbers, strings and arrays have none of them. On an object that is not
  \<open>null\<close>, \<open>v.key\<close> is the same read.
\<close>

fun optProp :: "jsval \<Rightarrow> string \<Rightarrow> jsval" where
  "optProp (Obj kvs) k = (case map_of kvs k of None \<Rightarrow> Undefined | Some v \<Rightarrow> v)"
| "optProp v k = Undefined"

text \<open>\<open>Number.isFinite\<close> on a number.\<close>

fun isFinite :: "jsnum \<Rightarrow> bool" where
  "isFinite (Fin q) = True"
| "isFinite n = False"

text \<open>\<open>a !== b\<close> on numbers: \<open>NaN\<close> differs from everything, itself included.\<close>

fun strictNe :: "jsnum \<Rightarrow> jsnum \<Rightarrow> bool" where
  "strictNe NaN b = True"
| "strictNe a NaN = True"
| "strictNe a b = (a \<noteq> b)"

text \<open>\<open>a > b\<close> on numbers: false as soon as one side is \<open>NaN\<close>.\<close>

fun gt :: "jsnum \<Rightarrow> jsnum \<Rightarrow> bool" where
  "gt NaN b = False"
| "gt a NaN = False"
| "gt (Fin a) (Fin b) = (a > b)"
| "gt (Fin a) PosInf = False"
| "gt (Fin a) NegInf = True"
| "gt PosInf PosInf = False"
| "gt PosInf b = True"
| "gt NegInf b = False"

text \<open>The largest finite double, and the least magnitude that rounds to an infinity.\<close>

definition MAX_VALUE :: rat where
  "MAX_VALUE = 2 ^ 1024 - 2 ^ 971"

definition overflow_threshold :: rat where
  "overflow_threshold = 2 ^ 1024 - 2 ^ 970"

definition fromExact :: "rat \<Rightarrow> jsnum" where
  "fromExact q =
     (if overflow_threshold \<le> q then PosInf
      else if q \<le> - overflow_threshold then NegInf
      else Fin q)"

text \<open>\<open>a / b\<close> on numbers. A zero divisor counts as \<open>+0\<close>.\<close>

fun divide_num :: "jsnum \<Rightarrow> jsnum \<Rightarrow> jsnum" where
  "divide_num NaN b = NaN"
| "divide_num a NaN = NaN"
| "divide_num (Fin a) (Fin b) =
     (if b = 0 then (if a = 0 then NaN else if 0 < a then PosInf else NegInf)
      else fromExact (a / b))"
| "divide_num (Fin a) PosInf = Fin 0"
| "divide_num (Fin a) NegInf = Fin 0"
| "divide_num PosInf (Fin b) = (if 0 \<le> b then PosInf else NegInf)"
| "divide_num NegInf (Fin b) = (if 0 \<le> b then NegInf else PosInf)"
| "divide_num a b = NaN"

section \<open>The normalizer\<close>

text \<open>The pair \<open>{ value, prev }\<close> of one metric; the field \<open>value\<close> is written \<open>val\<close> here.\<close>

record metric =
  val :: jsnum
  prev :: jsnum

record StatsData =
  pageviews :: metric
  visitors :: metric
  visits :: metric
  bounces :: metric
  totaltime :: metric

text \<open>
  \<open>toNum(v, fallback)\<close>: \<open>typeof v === "number" && Number.isFinite(v) ? v : fallback\<close>.
\<close>

definition toNum :: "jsval \<Rightarrow> jsnum \<Rightarrow> jsnum" where
  "toNum v fallback =
     (case v of
        Num n \<Rightarrow> if isFinite n then n else fallback
      | _ \<Rightarrow> fallback)"

text \<open>\<open>typeof maybe === "object" && maybe !== null\<close>.\<close>

definition isObject :: "jsval \<Rightarrow> bool" where
  "isObject maybe = (typeof maybe = ''object'' \<and> maybe \<noteq> Null)"

definition unwrapValPrev :: "jsval \<Rightarrow> metric" where
  "unwrapValPrev maybe =
     (if isObject maybe then
        (let value' = toNum (optProp maybe ''value'') (Fin 0);
             prev' = toNum (optProp maybe ''prev'') (Fin 0)
         in if strictNe value' (Fin 0) \<or> strictNe prev' (Fin 0)
            then \<lparr> val = value', prev = prev' \<rparr>
            else \<lparr> val = toNum maybe (Fin 0), prev = Fin 0 \<rparr>)
      else \<lparr> val = toNum maybe (Fin 0), prev = Fin 0 \<rparr>)"

definition normalizeToStatsData :: "jsval \<Rightarrow> StatsData" where
  "normalizeToStatsData raw =
     (let pageviews' = unwrapValPrev (optProp raw ''pageviews'');
          visitors' = unwrapValPrev (optProp raw ''visitors'');
          visits' = unwrapValPrev (optProp raw ''visits'');
          bounces' = unwrapValPrev (optProp raw ''bounces'');
          totaltimeRaw = unwrapValPrev (optProp raw ''totaltime'');
          visitsCurr = toNum (Num (val visits')) (Fin 0);
          visitsPrev = toNum (Num (prev visits')) (Fin 0);
          totalSecondsCurr = toNum (Num (val totaltimeRaw)) (Fin 0);
          totalSecondsPrev = toNum (Num (prev totaltimeRaw)) (Fin 0);
          avgMinutesCurr =
            (if gt visitsCurr (Fin 0)
             then divide_num (divide_num totalSecondsCurr visitsCurr) (Fin 60) else Fin 0);
          avgMinutesPrev =
            (if gt visitsPrev (Fin 0)
             then divide_num (divide_num totalSecondsPrev visitsPrev) (Fin 60) else Fin 0)
      in \<lparr> pageviews = pageviews',
           visitors = visitors',
           visits = visits',
           bounces = bounces',
           totaltime = \<lparr> val = avgMinutesCurr, prev = avgMinutesPrev \<rparr> \<rparr>)"

section \<open>Fetching the statistics\<close>

text \<open>
  The snapshot \<open>fetchStats\<close> returns for a response that is not ok, and the one the component
  sets when loading throws: every metric \<open>{ value: 0, prev: 0 }\<close>.
\<close>

definition zeroStats :: StatsData where
  "zeroStats =
     \<lparr> pageviews = \<lparr> val = Fin 0, prev = Fin 0 \<rparr>,
       visitors = \<lparr> val = Fin 0, prev = Fin 0 \<rparr>,
       visits = \<lparr> val = Fin 0, prev = Fin 0 \<rparr>,
       bounces = \<lparr> val = Fin 0, prev = Fin 0 \<rparr>,
       totaltime = \<lparr> val = Fin 0, prev = Fin 0 \<rparr> \<rparr>"

text \<open>What an \<open>await\<close> can throw here: \<open>fetch\<close> rejecting, or \<open>res.json()\<close> rejecting.\<close>

datatype error = FetchFailed | JsonParseFailed

text \<open>
  The response as \<open>fetchStats\<close> reads it: its status, and the outcome of \<open>res.json()\<close>
  (\<open>None\<close> when the body does not parse). \<open>res.ok\<close> is true for the statuses 200 to 299.
\<close>

record response =
  res_status :: nat
  res_json :: "jsval option"

definition res_ok :: "response \<Rightarrow> bool" where
  "res_ok res = (200 \<le> res_status res \<and> res_status res \<le> 299)"

datatype fetch_outcome = Rejected error | Resolved response

text \<open>
  \<open>fetchStats\<close>, as a function of how the request ends. \<open>Inl\<close> is the rejected promise. The URL
  (a base taken from the environment outside a browser) plays no part in what follows.
\<close>

definition fetchStats :: "fetch_outcome \<Rightarrow> error + StatsData" where
  "fetchStats outcome =
     (case outcome of
        Rejected e \<Rightarrow> Inl e
      | Resolved res \<Rightarrow>
          if \<not> res_ok res then Inr zeroStats
          else (case res_json res of
                  None \<Rightarrow> Inl JsonParseFailed
                | Some raw \<Rightarrow> Inr (normalizeToStatsData raw)))"

section \<open>The component\<close>

text \<open>
  The state of one mounted \<open>StatsChart\<close>: the \<open>stats\<close> of \<open>useState\<close> (\<open>None\<close> is \<open>null\<close>), the
  variable \<open>mounted\<close> of the effect, and a log of every call of \<open>setStats\<close>, oldest first.
\<close>

record widget =
  stats :: "StatsData option"
  mounted :: bool
  setStats_calls :: "StatsData list"

text \<open>The state once the effect has run: \<open>load()\<close> is waiting for the request.\<close>

definition activate :: widget where
  "activate = \<lparr> stats = None, mounted = True, setStats_calls = [] \<rparr>"

definition setStats :: "StatsData \<Rightarrow> widget \<Rightarrow> widget" where
  "setStats s w = w \<lparr> stats := Some s, setStats_calls := setStats_calls w @ [s] \<rparr>"

text \<open>
  \<open>load\<close> from the moment the request ends: the \<open>try\<close> branch on a snapshot, the \<open>catch\<close>
  branch on a thrown error. \<open>Inl\<close> would be an error leaving \<open>load\<close>.
\<close>

definition load :: "fetch_outcome \<Rightarrow> widget \<Rightarrow> error + widget" where
  "load outcome w =
     (case fetchStats outcome of
        Inr s \<Rightarrow> Inr (if mounted w then setStats s w else w)
      | Inl e \<Rightarrow> Inr (if mounted w then setStats zeroStats w else w))"

text \<open>The function the effect returns, run when the component is unmounted.\<close>

definition cleanup :: "widget \<Rightarrow> error + widget" where
  "cleanup w = Inr (w \<lparr> mounted := False \<rparr>)"

text \<open>What can happen to a mounted component, and a sequence of such events.\<close>

datatype event = Settle fetch_outcome | Cleanup

fun step :: "event \<Rightarrow> widget \<Rightarrow> error + widget" where
  "step (Settle outcome) w = load outcome w"
| "step Cleanup w = cleanup w"

fun run :: "event list \<Rightarrow> widget \<Rightarrow> error + widget" where
  "run [] w = Inr w"
| "run (e # es) w = (case step e w of Inl err \<Rightarrow> Inl err | Inr w' \<Rightarrow> run es w')"

text \<open>The two states of the specification, read off \<open>stats\<close>.\<close>

datatype phase = Loading | Ready StatsData

definition phase :: "widget \<Rightarrow> phase" where
  "phase w = (case stats w of None \<Rightarrow> Loading | Some s \<Rightarrow> Ready s)"

text \<open>
  A request that fails: \<open>fetch\<close> throws, the status is not 2xx, or the body does not parse.
\<close>

fun failed :: "fetch_outcome \<Rightarrow> bool" where
  "failed (Rejected e) = True"
| "failed (Resolved res) = (\<not> res_ok res \<or> res_json res = None)"

subsection \<open>Rendering\<close>

text \<open>The slices of \<open>useMemo\<close>; \<open>??\<close> never fires on a \<open>StatsData\<close>, whose fields are numbers.\<close>

record chartSlice =
  slice_type :: string
  slice_visitors :: jsnum
  slice_fill :: string

definition chartData :: "StatsData option \<Rightarrow> chartSlice list" where
  "chartData st =
     (case st of
        None \<Rightarrow> []
      | Some s \<Rightarrow>
          [ \<lparr> slice_type = ''pageviews'', slice_visitors = val (pageviews s),
              slice_fill = ''var(--color-pageviews)'' \<rparr>,
            \<lparr> slice_type = ''visitors'', slice_visitors = val (visitors s),
              slice_fill = ''var(--color-visitors)'' \<rparr>,
            \<lparr> slice_type = ''visits'', slice_visitors = val (visits s),
              slice_fill = ''var(--color-visits)'' \<rparr>,
            \<lparr> slice_type = ''bounces'', slice_visitors = val (bounces s),
              slice_fill = ''var(--color-bounces)'' \<rparr>,
            \<lparr> slice_type = ''totaltime'', slice_visitors = val (totaltime s),
              slice_fill = ''var(--color-totaltime)'' \<rparr> ])"

text \<open>
  The chart library calls the label's \<open>content\<close> with a \<open>viewBox\<close>, which may lack \<open>cx\<close> or
  \<open>cy\<close>. The label is two \<open>tspan\<close>s: the number and, 24 units below, the caption.
\<close>

record viewBox =
  cx :: "rat option"
  cy :: "rat option"

datatype child = NumberChild jsnum | TextChild string

record tspan =
  tspan_x :: rat
  tspan_y :: rat
  tspan_child :: child

record centerLabel =
  label_number :: tspan
  label_caption :: tspan

text \<open>\<open>stats.visits?.value ?? 0\<close>, on a \<open>StatsData\<close>.\<close>

definition visitsValue :: "StatsData \<Rightarrow> jsnum" where
  "visitsValue s = val (visits s)"

definition labelContent :: "StatsData \<Rightarrow> viewBox option \<Rightarrow> centerLabel option" where
  "labelContent s vb =
     (case vb of
        None \<Rightarrow> None
      | Some b \<Rightarrow>
          (case (cx b, cy b) of
             (Some x, Some y) \<Rightarrow>
               Some \<lparr> label_number =
                        \<lparr> tspan_x = x, tspan_y = y, tspan_child = NumberChild (visitsValue s) \<rparr>,
                      label_caption =
                        \<lparr> tspan_x = x, tspan_y = y + 24, tspan_child = TextChild ''Visits'' \<rparr> \<rparr>
           | _ \<Rightarrow> None))"

datatype view = Spinner | Chart "chartSlice list" "centerLabel option"

definition render :: "widget \<Rightarrow> viewBox option \<Rightarrow> view" where
  "render w vb =
     (case stats w of
        None \<Rightarrow> Spinner
      | Some s \<Rightarrow> Chart (chartData (stats w)) (labelContent s vb))"

section \<open>The proxy handlers\<close>

text \<open>
  What the analytics client gives back, \<open>{ ok, data, status, error }\<close>, unless the call throws.
\<close>

record api_result =
  api_ok :: bool
  api_data :: jsval
  api_status :: nat
  api_error :: jsval

datatype client_outcome = Throws | Returns api_result

record client =
  getWebsiteStats :: "string \<Rightarrow> jsval \<Rightarrow> client_outcome"
  getWebsitePageviews :: "string \<Rightarrow> jsval \<Rightarrow> client_outcome"

text \<open>
  A response is the pair of what was serialized into its body and its status. The text of the
  serialization is not computed; \<open>JSON.stringify(undefined)\<close> is \<open>undefined\<close>, which makes the
  body empty.
\<close>

datatype body = JSON_stringify jsval

record http_response =
  resp_body :: body
  resp_status :: nat

fun nullBody :: "body \<Rightarrow> bool" where
  "nullBody (JSON_stringify v) = (v = Undefined)"

text \<open>
  \<open>new Response(body, { status })\<close> as the Fetch standard defines it. The status is read as an
  unsigned 16-bit integer (a status below 65536 is read as it is). The constructor throws a
  \<open>RangeError\<close> when the status is not within 200 to 599, and a \<open>TypeError\<close> when there is a
  body and the status is one that allows none (101, 103, 204, 205, 304).
\<close>

datatype response_error = RangeError | TypeError

definition toUint16 :: "nat \<Rightarrow> nat" where
  "toUint16 n = n mod 65536"

definition nullBodyStatus :: "nat \<Rightarrow> bool" where
  "nullBodyStatus n = (n = 101 \<or> n = 103 \<or> n = 204 \<or> n = 205 \<or> n = 304)"

definition newResponse :: "body \<Rightarrow> nat \<Rightarrow> response_error + http_response" where
  "newResponse b status =
     (let n = toUint16 status
      in if n < 200 \<or> 599 < n then Inl RangeError
         else if \<not> nullBody b \<and> nullBodyStatus n then Inl TypeError
         else Inr \<lparr> resp_body = b, resp_status = n \<rparr>)"

text \<open>The constants of the two handlers, as functions of \<open>Date.now()\<close>.\<close>

definition websiteId :: string where
  "websiteId = ''2ff5fb4d-88e4-48a1-98ef-04b8191a6a5c''"

definition metricsData :: "int \<Rightarrow> jsval" where
  "metricsData now =
     (let oneDayInMilliseconds = 7 * 24 * 60 * 60 * 1000;
          startAt = now - oneDayInMilliseconds
      in Obj [(''startAt'', Num (Fin (of_int startAt))),
              (''endAt'', Num (Fin (of_int now))),
              (''type'', Str ''url'')])"

definition pageviewsData :: "int \<Rightarrow> jsval" where
  "pageviewsData now =
     (let oneYearAgo = now - 365 * 24 * 60 * 60 * 1000
      in Obj [(''startAt'', Num (Fin (of_int oneYearAgo))),
              (''endAt'', Num (Fin (of_int now))),
              (''unit'', Str ''day''),
              (''timezone'', Str ''America/Los_Angeles''),
              (''region'', Str ''US'')])"

text \<open>
  \<open>GET\<close> of the statistics route. Both \<open>new Response\<close> of the \<open>try\<close> block can throw, and what
  is thrown there is caught like a throw of the client: \<open>caught\<close> is the \<open>catch\<close> block. \<open>Inl\<close>
  would be an error leaving the handler.
\<close>

definition GET_stats :: "client \<Rightarrow> int \<Rightarrow> response_error + http_response" where
  "GET_stats c now =
     (let caught =
            newResponse
              (JSON_stringify (Obj [(''error'', Str ''Failed to fetch website metrics'')])) 500
      in case getWebsiteStats c websiteId (metricsData now) of
           Throws \<Rightarrow> caught
         | Returns r \<Rightarrow>
             (case (if \<not> api_ok r
                    then newResponse
                           (JSON_stringify
                              (Obj [(''error'', Str ''Failed to fetch website metrics'')]))
                           (api_status r)
                    else newResponse (JSON_stringify (api_data r)) 200) of
                Inl e \<Rightarrow> caught
              | Inr res \<Rightarrow> Inr res))"

text \<open>\<open>GET\<close> of the page views route, built the same way.\<close>

definition GET_pageviews :: "client \<Rightarrow> int \<Rightarrow> response_error + http_response" where
  "GET_pageviews c now =
     (let caught =
            newResponse
              (JSON_stringify (Obj [(''error'', Str ''Failed to fetch website pageviews'')])) 500
      in case getWebsitePageviews c websiteId (pageviewsData now) of
           Throws \<Rightarrow> caught
         | Returns r \<Rightarrow>
             (case (if \<not> api_ok r
                    then newResponse
                           (JSON_stringify
                              (Obj [(''error'', Str ''Failed to fetch website pageviews'')]))
                           (api_status r)
                    else newResponse (JSON_stringify (api_data r)) 200) of
                Inl e \<Rightarrow> caught
              | Inr res \<Rightarrow> Inr res))"

section \<open>Notions the properties are stated with\<close>

text \<open>
  A number a program can hold: a finite one is at most \<open>Number.MAX_VALUE\<close> in magnitude. A
  payload is well formed when every number in it is.
\<close>

definition inDoubleRange :: "jsnum \<Rightarrow> bool" where
  "inDoubleRange n = (case n of Fin q \<Rightarrow> \<bar>q\<bar> \<le> MAX_VALUE | _ \<Rightarrow> True)"

fun wellFormed :: "jsval \<Rightarrow> bool" where
  "wellFormed (Num n) = inDoubleRange n"
| "wellFormed (Arr xs) = (\<forall>x \<in> set xs. wellFormed x)"
| "wellFormed (Obj kvs) = (\<forall>(k, v) \<in> set kvs. wellFormed v)"
| "wellFormed v = True"

text \<open>
  The pair an object-shaped metric coerces to directly, \<open>{ toNum(value), toNum(prev) }\<close>, with
  no fall-through: what \<open>unwrapValPrev\<close> is compared with.
\<close>

definition coercedPair :: "jsval \<Rightarrow> metric" where
  "coercedPair maybe =
     \<lparr> val = toNum (optProp maybe ''value'') (Fin 0),
       prev = toNum (optProp maybe ''prev'') (Fin 0) \<rparr>"

text \<open>
  A client to evaluate the handlers with: its two calls end the given way, whatever they are
  asked.
\<close>

definition stubClient :: "client_outcome \<Rightarrow> client_outcome \<Rightarrow> client" where
  "stubClient statsOutcome pageviewsOutcome =
     \<lparr> getWebsiteStats = (\<lambda>i d. statsOutcome),
       getWebsitePageviews = (\<lambda>i d. pageviewsOutcome) \<rparr>"

section \<open>Coercion and resolution of one metric\<close>

lemma toNum_isFinite: "isFinite (toNum v (Fin 0))"
  by (cases v) (auto simp: toNum_def)

lemma toNum_Num_finite: "isFinite n \<Longrightarrow> toNum (Num n) f = n"
  by (simp add: toNum_def)

lemma toNum_isObject: "isObject maybe \<Longrightarrow> toNum maybe f = f"
  by (cases maybe) (auto simp: toNum_def isObject_def)

lemma strictNe_finite: "isFinite a \<Longrightarrow> strictNe a (Fin 0) = (a \<noteq> Fin 0)"
  by (cases a) auto

lemma unwrapValPrev_isFinite:
  "isFinite (val (unwrapValPrev maybe))" "isFinite (prev (unwrapValPrev maybe))"
  by (auto simp: unwrapValPrev_def Let_def toNum_isFinite)

lemma unwrapValPrev_Num:
  "unwrapValPrev (Num n) = \<lparr> val = (if isFinite n then n else Fin 0), prev = Fin 0 \<rparr>"
  by (simp add: unwrapValPrev_def isObject_def toNum_def)

lemma unwrapValPrev_Undefined: "unwrapValPrev Undefined = \<lparr> val = Fin 0, prev = Fin 0 \<rparr>"
  by (simp add: unwrapValPrev_def isObject_def toNum_def)

lemma unwrapValPrev_object:
  assumes "isObject maybe"
  shows "unwrapValPrev maybe = coercedPair maybe"
proof -
  let ?v = "toNum (optProp maybe ''value'') (Fin 0)"
  let ?p = "toNum (optProp maybe ''prev'') (Fin 0)"
  have ne: "strictNe ?v (Fin 0) = (?v \<noteq> Fin 0)" "strictNe ?p (Fin 0) = (?p \<noteq> Fin 0)"
    by (simp_all add: strictNe_finite toNum_isFinite)
  have fall: "toNum maybe (Fin 0) = Fin 0"
    using assms by (rule toNum_isObject)
  show ?thesis
    using assms by (simp add: unwrapValPrev_def coercedPair_def Let_def ne fall)
qed

section \<open>The fields of the normalized snapshot\<close>

lemma normalize_fields:
  "pageviews (normalizeToStatsData raw) = unwrapValPrev (optProp raw ''pageviews'')"
  "visitors (normalizeToStatsData raw) = unwrapValPrev (optProp raw ''visitors'')"
  "visits (normalizeToStatsData raw) = unwrapValPrev (optProp raw ''visits'')"
  "bounces (normalizeToStatsData raw) = unwrapValPrev (optProp raw ''bounces'')"
  by (simp_all add: normalizeToStatsData_def Let_def)

lemma normalize_totaltime_val:
  "val (totaltime (normalizeToStatsData raw)) =
     (if gt (val (unwrapValPrev (optProp raw ''visits''))) (Fin 0)
      then divide_num (divide_num (val (unwrapValPrev (optProp raw ''totaltime'')))
                                  (val (unwrapValPrev (optProp raw ''visits'')))) (Fin 60)
      else Fin 0)"
  by (simp add: normalizeToStatsData_def Let_def toNum_Num_finite unwrapValPrev_isFinite)

lemma normalize_totaltime_prev:
  "prev (totaltime (normalizeToStatsData raw)) =
     (if gt (prev (unwrapValPrev (optProp raw ''visits''))) (Fin 0)
      then divide_num (divide_num (prev (unwrapValPrev (optProp raw ''totaltime'')))
                                  (prev (unwrapValPrev (optProp raw ''visits'')))) (Fin 60)
      else Fin 0)"
  by (simp add: normalizeToStatsData_def Let_def toNum_Num_finite unwrapValPrev_isFinite)

lemma divide_zero_seconds:
  assumes "isFinite v" "gt v (Fin 0)"
  shows "divide_num (divide_num (Fin 0) v) (Fin 60) = Fin 0"
  using assms by (cases v) (auto simp: fromExact_def overflow_threshold_def)

lemma totaltime_zero_seconds:
  "val (unwrapValPrev (optProp raw ''totaltime'')) = Fin 0 \<Longrightarrow> val (totaltime (normalizeToStatsData raw)) = Fin 0"
  "prev (unwrapValPrev (optProp raw ''totaltime'')) = Fin 0 \<Longrightarrow> prev (totaltime (normalizeToStatsData raw)) = Fin 0"
  by (simp_all add: normalize_totaltime_val normalize_totaltime_prev divide_zero_seconds unwrapValPrev_isFinite)

section \<open>The range of the average\<close>

lemma MAX_VALUE_nonneg: "0 \<le> MAX_VALUE"
  by (simp add: MAX_VALUE_def)

lemma MAX_VALUE_less_threshold: "MAX_VALUE < overflow_threshold"
  by (simp add: MAX_VALUE_def overflow_threshold_def)

lemma wellFormed_optProp: "wellFormed raw \<Longrightarrow> wellFormed (optProp raw k)"
  by (cases raw) (auto split: option.splits dest!: map_of_SomeD)

lemma inDoubleRange_toNum: "wellFormed v \<Longrightarrow> inDoubleRange (toNum v (Fin 0))"
  by (cases v) (auto simp: toNum_def inDoubleRange_def MAX_VALUE_nonneg)

lemma inDoubleRange_zero: "inDoubleRange (Fin 0)"
  by (simp add: inDoubleRange_def MAX_VALUE_nonneg)

lemma inDoubleRange_unwrapValPrev:
  assumes "wellFormed maybe"
  shows "inDoubleRange (val (unwrapValPrev maybe))" "inDoubleRange (prev (unwrapValPrev maybe))"
proof -
  have a: "inDoubleRange (toNum (optProp maybe k) (Fin 0))" for k
    using assms by (simp add: inDoubleRange_toNum wellFormed_optProp)
  have b: "inDoubleRange (toNum maybe (Fin 0))"
    using assms by (rule inDoubleRange_toNum)
  show "inDoubleRange (val (unwrapValPrev maybe))"
    by (simp add: unwrapValPrev_def Let_def a b)
  show "inDoubleRange (prev (unwrapValPrev maybe))"
    by (simp add: unwrapValPrev_def Let_def a inDoubleRange_zero)
qed

lemma fromExact_small: "\<bar>q\<bar> < overflow_threshold \<Longrightarrow> fromExact q = Fin q"
  by (auto simp: fromExact_def)

lemma abs_divide_le:
  fixes q c :: rat
  assumes c: "1 \<le> c"
  shows "\<bar>q / c\<bar> \<le> \<bar>q\<bar>"
proof -
  have "\<bar>q\<bar> \<le> c * \<bar>q\<bar>"
    using mult_right_mono [OF c abs_ge_zero [of q]] by simp
  then show ?thesis
    using c by (simp add: field_simps)
qed

lemma average_finite:
  assumes x: "\<bar>x\<bar> \<le> MAX_VALUE" and y: "1 \<le> y"
  shows "divide_num (divide_num (Fin x) (Fin y)) (Fin 60) = Fin (x / y / 60)"
proof -
  have "\<bar>x / y\<bar> \<le> \<bar>x\<bar>"
    using y by (rule abs_divide_le)
  also have "\<dots> \<le> MAX_VALUE"
    by (rule x)
  also have "\<dots> < overflow_threshold"
    by (rule MAX_VALUE_less_threshold)
  finally have q: "\<bar>x / y\<bar> < overflow_threshold" .
  have "\<bar>x / y / 60\<bar> \<le> \<bar>x / y\<bar>"
    by (rule abs_divide_le) simp
  then have q60: "\<bar>x / y / 60\<bar> < overflow_threshold"
    using q by (rule le_less_trans)
  have "y \<noteq> 0" using y by auto
  then show ?thesis
    using fromExact_small [OF q] fromExact_small [OF q60] by simp
qed

lemma fromExact_not_NaN: "fromExact q \<noteq> NaN"
  by (simp add: fromExact_def)

lemma average_not_NaN:
  assumes "isFinite s" "isFinite v" "gt v (Fin 0)"
  shows "divide_num (divide_num s v) (Fin 60) \<noteq> NaN"
proof -
  obtain x y where s: "s = Fin x" and v: "v = Fin y"
    using assms by (cases s; cases v) auto
  have y: "y \<noteq> 0" using assms v by auto
  show ?thesis
  proof (cases "fromExact (x / y)")
    case (Fin q)
    then show ?thesis using s v y by (simp add: fromExact_not_NaN)
  qed (use s v y fromExact_not_NaN in auto)
qed

lemma totaltime_not_NaN:
  "val (totaltime (normalizeToStatsData raw)) \<noteq> NaN"
  "prev (totaltime (normalizeToStatsData raw)) \<noteq> NaN"
  by (simp_all add: normalize_totaltime_val normalize_totaltime_prev average_not_NaN
      unwrapValPrev_isFinite)

lemma average_isFinite:
  assumes s: "isFinite s" "inDoubleRange s" and v: "isFinite v"
    and nf: "\<not> (gt v (Fin 0) \<and> gt (Fin 1) v)"
  shows "isFinite (if gt v (Fin 0) then divide_num (divide_num s v) (Fin 60) else Fin 0)"
proof (cases "gt v (Fin 0)")
  case True
  obtain x y where sx: "s = Fin x" and vy: "v = Fin y"
    using s v by (cases s; cases v) auto
  have y: "1 \<le> y" using True nf vy by auto
  have x: "\<bar>x\<bar> \<le> MAX_VALUE" using s sx by (simp add: inDoubleRange_def)
  have "divide_num (divide_num s v) (Fin 60) = Fin (x / y / 60)"
    unfolding sx vy using x y by (rule average_finite)
  then show ?thesis
    using True by simp
next
  case False
  then show ?thesis by simp
qed

lemma totaltime_isFinite:
  assumes w: "wellFormed raw"
  shows "\<not> (gt (val (visits (normalizeToStatsData raw))) (Fin 0)
            \<and> gt (Fin 1) (val (visits (normalizeToStatsData raw))))
         \<Longrightarrow> isFinite (val (totaltime (normalizeToStatsData raw)))"
    and "\<not> (gt (prev (visits (normalizeToStatsData raw))) (Fin 0)
            \<and> gt (Fin 1) (prev (visits (normalizeToStatsData raw))))
         \<Longrightarrow> isFinite (prev (totaltime (normalizeToStatsData raw)))"
proof -
  have t: "wellFormed (optProp raw ''totaltime'')"
    using w by (rule wellFormed_optProp)
  show "isFinite (val (totaltime (normalizeToStatsData raw)))"
    if "\<not> (gt (val (visits (normalizeToStatsData raw))) (Fin 0)
            \<and> gt (Fin 1) (val (visits (normalizeToStatsData raw))))"
    unfolding normalize_totaltime_val
    using that unfolding normalize_fields
    by (intro average_isFinite unwrapValPrev_isFinite inDoubleRange_unwrapValPrev t)
  show "isFinite (prev (totaltime (normalizeToStatsData raw)))"
    if "\<not> (gt (prev (visits (normalizeToStatsData raw))) (Fin 0)
            \<and> gt (Fin 1) (prev (visits (normalizeToStatsData raw))))"
    unfolding normalize_totaltime_prev
    using that unfolding normalize_fields
    by (intro average_isFinite unwrapValPrev_isFinite inDoubleRange_unwrapValPrev t)
qed

section \<open>Properties of the normalizer\<close>

text \<open>
  C1, as stated, fails: a negative number is a finite number, and \<open>toNum\<close> keeps every finite
  number. \<open>pageviews: -5\<close> normalizes to the value \<open>-5\<close>, and so does
  \<open>pageviews: { value: -5, prev: -3 }\<close>; neither yields \<open>0\<close>.
\<close>

theorem negative_input_counterexample:
  "val (pageviews (normalizeToStatsData (Obj [(''pageviews'', Num (Fin (- 5)))]))) \<noteq> Fin 0
   \<and> val (pageviews (normalizeToStatsData
          (Obj [(''pageviews'', Obj [(''value'', Num (Fin (- 5))), (''prev'', Num (Fin (- 3)))])])))
       \<noteq> Fin 0"
  by (simp add: normalizeToStatsData_def Let_def unwrapValPrev_def toNum_def isObject_def)

text \<open>
  C1, amended: \<open>toNum\<close> turns \<open>NaN\<close>, \<open>Infinity\<close> and \<open>-Infinity\<close> into \<open>0\<close> and returns every
  finite number, negative ones included, as it is. So a metric given as a bare number \<open>n\<close>
  resolves to \<open>n\<close> when \<open>n\<close> is finite and to \<open>0\<close> otherwise, and the \<open>value\<close> and \<open>prev\<close> fields
  of an object-shaped metric resolve field by field in the same way. The snapshot holds the
  resolved pairs of \<open>pageviews\<close>, \<open>visitors\<close>, \<open>visits\<close> and \<open>bounces\<close> unchanged, and a
  \<open>totaltime\<close> figure that resolved to \<open>0\<close> gives \<open>0\<close> in the snapshot: the coercion comes
  before the division.
\<close>

theorem nonfinite_coerced_negative_kept:
  "toNum (Num n) (Fin 0) = (if isFinite n then n else Fin 0)
   \<and> unwrapValPrev (Num n) = \<lparr> val = (if isFinite n then n else Fin 0), prev = Fin 0 \<rparr>
   \<and> (isObject maybe \<and> optProp maybe ''value'' = Num n
        \<longrightarrow> val (unwrapValPrev maybe) = (if isFinite n then n else Fin 0))
   \<and> (isObject maybe \<and> optProp maybe ''prev'' = Num n
        \<longrightarrow> prev (unwrapValPrev maybe) = (if isFinite n then n else Fin 0))
   \<and> pageviews (normalizeToStatsData raw) = unwrapValPrev (optProp raw ''pageviews'')
   \<and> visitors (normalizeToStatsData raw) = unwrapValPrev (optProp raw ''visitors'')
   \<and> visits (normalizeToStatsData raw) = unwrapValPrev (optProp raw ''visits'')
   \<and> bounces (normalizeToStatsData raw) = unwrapValPrev (optProp raw ''bounces'')
   \<and> (val (unwrapValPrev (optProp raw ''totaltime'')) = Fin 0
        \<longrightarrow> val (totaltime (normalizeToStatsData raw)) = Fin 0)
   \<and> (prev (unwrapValPrev (optProp raw ''totaltime'')) = Fin 0
        \<longrightarrow> prev (totaltime (normalizeToStatsData raw)) = Fin 0)"
proof -
  have t: "toNum (Num n) (Fin 0) = (if isFinite n then n else Fin 0)"
    by (simp add: toNum_def)
  have v: "val (unwrapValPrev maybe) = (if isFinite n then n else Fin 0)"
    if "isObject maybe" "optProp maybe ''value'' = Num n"
    using that by (simp add: unwrapValPrev_object coercedPair_def toNum_def)
  have p: "prev (unwrapValPrev maybe) = (if isFinite n then n else Fin 0)"
    if "isObject maybe" "optProp maybe ''prev'' = Num n"
    using that by (simp add: unwrapValPrev_object coercedPair_def toNum_def)
  show ?thesis
    using t v p unwrapValPrev_Num [of n] normalize_fields [of raw] totaltime_zero_seconds [of raw]
    by blast
qed

text \<open>
  C1, amended, at a concrete input: in \<open>{ value: NaN, prev: -3 }\<close> the \<open>NaN\<close> becomes \<open>0\<close> and
  the \<open>-3\<close> stays; \<open>totaltime: Infinity\<close> with four visits gives \<open>0\<close> minutes.
\<close>

theorem nonfinite_coerced_negative_kept_witness:
  "isObject (Obj [(''value'', Num NaN), (''prev'', Num (Fin (- 3)))])
   \<and> val (unwrapValPrev (Obj [(''value'', Num NaN), (''prev'', Num (Fin (- 3)))])) = Fin 0
   \<and> prev (unwrapValPrev (Obj [(''value'', Num NaN), (''prev'', Num (Fin (- 3)))])) = Fin (- 3)
   \<and> val (totaltime (normalizeToStatsData
        (Obj [(''totaltime'', Num PosInf), (''visits'', Num (Fin 4))]))) = Fin 0"
proof -
  have o: "isObject (Obj [(''value'', Num NaN), (''prev'', Num (Fin (- 3)))])"
    by (simp add: isObject_def)
  have z: "val (unwrapValPrev (optProp (Obj [(''totaltime'', Num PosInf), (''visits'', Num (Fin 4))])
             ''totaltime'')) = Fin 0"
    by (simp add: unwrapValPrev_def isObject_def toNum_def)
  show ?thesis
    using o z
      nonfinite_coerced_negative_kept [of NaN "Obj [(''value'', Num NaN), (''prev'', Num (Fin (- 3)))]"
        "Obj [(''totaltime'', Num PosInf), (''visits'', Num (Fin 4))]"]
      nonfinite_coerced_negative_kept [of "Fin (- 3)" "Obj [(''value'', Num NaN), (''prev'', Num (Fin (- 3)))]"
        "Obj [(''totaltime'', Num PosInf), (''visits'', Num (Fin 4))]"]
    by simp
qed

text \<open>
  C2: the normalized \<open>totaltime.value\<close> is the resolved seconds divided by \<open>visits.value\<close> and
  then by 60 when \<open>visits.value > 0\<close>, and \<open>0\<close> otherwise; \<open>totaltime.prev\<close> is computed the same
  way from the two \<open>prev\<close> figures. With \<open>totaltime = { value: 1200, prev: 600 }\<close> and
  \<open>visits = { value: 10, prev: 5 }\<close> the result is \<open>{ value: 2, prev: 2 }\<close>, and
  \<open>visits.value = 0\<close> gives \<open>totaltime.value = 0\<close> whatever the seconds are.
\<close>

theorem totaltime_average_minutes:
  "val (totaltime (normalizeToStatsData raw)) =
     (if gt (val (visits (normalizeToStatsData raw))) (Fin 0)
      then divide_num
             (divide_num (val (unwrapValPrev (optProp raw ''totaltime'')))
                         (val (visits (normalizeToStatsData raw))))
             (Fin 60)
      else Fin 0)
   \<and> prev (totaltime (normalizeToStatsData raw)) =
     (if gt (prev (visits (normalizeToStatsData raw))) (Fin 0)
      then divide_num
             (divide_num (prev (unwrapValPrev (optProp raw ''totaltime'')))
                         (prev (visits (normalizeToStatsData raw))))
             (Fin 60)
      else Fin 0)
   \<and> totaltime (normalizeToStatsData
        (Obj [(''totaltime'', Obj [(''value'', Num (Fin 1200)), (''prev'', Num (Fin 600))]),
              (''visits'', Obj [(''value'', Num (Fin 10)), (''prev'', Num (Fin 5))])]))
       = \<lparr> val = Fin 2, prev = Fin 2 \<rparr>
   \<and> (val (visits (normalizeToStatsData raw)) = Fin 0
        \<longrightarrow> val (totaltime (normalizeToStatsData raw)) = Fin 0)"
proof -
  have ex: "totaltime (normalizeToStatsData
        (Obj [(''totaltime'', Obj [(''value'', Num (Fin 1200)), (''prev'', Num (Fin 600))]),
              (''visits'', Obj [(''value'', Num (Fin 10)), (''prev'', Num (Fin 5))])]))
       = \<lparr> val = Fin 2, prev = Fin 2 \<rparr>"
    by (simp add: normalizeToStatsData_def Let_def unwrapValPrev_def toNum_def isObject_def
        fromExact_def overflow_threshold_def)
  have z: "val (totaltime (normalizeToStatsData raw)) = Fin 0"
    if "val (visits (normalizeToStatsData raw)) = Fin 0"
    using that by (simp add: normalize_totaltime_val normalize_fields)
  show ?thesis
    using ex z by (simp add: normalize_totaltime_val normalize_totaltime_prev normalize_fields)
qed

text \<open>C2 at \<open>{ totaltime: 500, visits: 0 }\<close>: no visits, so \<open>0\<close> minutes.\<close>

theorem totaltime_average_minutes_witness:
  "val (visits (normalizeToStatsData (Obj [(''totaltime'', Num (Fin 500)), (''visits'', Num (Fin 0))])))
     = Fin 0
   \<and> val (totaltime (normalizeToStatsData
        (Obj [(''totaltime'', Num (Fin 500)), (''visits'', Num (Fin 0))]))) = Fin 0"
proof -
  have h: "val (visits (normalizeToStatsData
             (Obj [(''totaltime'', Num (Fin 500)), (''visits'', Num (Fin 0))]))) = Fin 0"
    by (simp add: normalizeToStatsData_def Let_def unwrapValPrev_def toNum_def isObject_def)
  show ?thesis
    using h totaltime_average_minutes
      [of "Obj [(''totaltime'', Num (Fin 500)), (''visits'', Num (Fin 0))]"]
    by blast
qed

text \<open>
  C3, as stated, fails: the quotient of two finite doubles can overflow. With
  \<open>totaltime: 2^1023\<close> and \<open>visits: 2^-10\<close> (both finite, the visits figure positive) the
  division gives \<open>Infinity\<close>, and \<open>Infinity / 60\<close> is \<open>Infinity\<close>: \<open>totaltime.value\<close> is not
  finite.
\<close>

theorem overflow_counterexample:
  "wellFormed (Obj [(''totaltime'', Num (Fin (2 ^ 1023))), (''visits'', Num (Fin (1 / 1024)))])
   \<and> \<not> isFinite (val (totaltime (normalizeToStatsData
        (Obj [(''totaltime'', Num (Fin (2 ^ 1023))), (''visits'', Num (Fin (1 / 1024)))]))))"
  by (simp add: normalizeToStatsData_def Let_def unwrapValPrev_def toNum_def isObject_def
      fromExact_def overflow_threshold_def inDoubleRange_def MAX_VALUE_def)

text \<open>
  C3, amended: for every payload the snapshot has its five metrics (it is a \<open>StatsData\<close>); the
  \<open>value\<close> and \<open>prev\<close> of \<open>pageviews\<close>, \<open>visitors\<close>, \<open>visits\<close> and \<open>bounces\<close> are finite; the
  \<open>value\<close> and \<open>prev\<close> of \<open>totaltime\<close> are never \<open>NaN\<close>, and each is finite whenever the payload
  is well formed and the visits figure it is divided by is not strictly between 0 and 1, as
  no count of visits is. The empty object and \<open>null\<close> normalize to the all-zero snapshot.
\<close>

theorem normalize_finite_unless_overflow:
  "isFinite (val (pageviews (normalizeToStatsData raw)))
   \<and> isFinite (prev (pageviews (normalizeToStatsData raw)))
   \<and> isFinite (val (visitors (normalizeToStatsData raw)))
   \<and> isFinite (prev (visitors (normalizeToStatsData raw)))
   \<and> isFinite (val (visits (normalizeToStatsData raw)))
   \<and> isFinite (prev (visits (normalizeToStatsData raw)))
   \<and> isFinite (val (bounces (normalizeToStatsData raw)))
   \<and> isFinite (prev (bounces (normalizeToStatsData raw)))
   \<and> val (totaltime (normalizeToStatsData raw)) \<noteq> NaN
   \<and> prev (totaltime (normalizeToStatsData raw)) \<noteq> NaN
   \<and> (wellFormed raw
        \<and> \<not> (gt (val (visits (normalizeToStatsData raw))) (Fin 0)
               \<and> gt (Fin 1) (val (visits (normalizeToStatsData raw))))
        \<longrightarrow> isFinite (val (totaltime (normalizeToStatsData raw))))
   \<and> (wellFormed raw
        \<and> \<not> (gt (prev (visits (normalizeToStatsData raw))) (Fin 0)
               \<and> gt (Fin 1) (prev (visits (normalizeToStatsData raw))))
        \<longrightarrow> isFinite (prev (totaltime (normalizeToStatsData raw))))
   \<and> normalizeToStatsData (Obj []) = zeroStats
   \<and> normalizeToStatsData Null = zeroStats"
proof -
  have four: "isFinite (val (pageviews (normalizeToStatsData raw)))"
    "isFinite (prev (pageviews (normalizeToStatsData raw)))"
    "isFinite (val (visitors (normalizeToStatsData raw)))"
    "isFinite (prev (visitors (normalizeToStatsData raw)))"
    "isFinite (val (visits (normalizeToStatsData raw)))"
    "isFinite (prev (visits (normalizeToStatsData raw)))"
    "isFinite (val (bounces (normalizeToStatsData raw)))"
    "isFinite (prev (bounces (normalizeToStatsData raw)))"
    by (simp_all add: normalize_fields unwrapValPrev_isFinite)
  have empty: "normalizeToStatsData (Obj []) = zeroStats" "normalizeToStatsData Null = zeroStats"
    by (simp_all add: normalizeToStatsData_def Let_def unwrapValPrev_def toNum_def isObject_def
        zeroStats_def)
  show ?thesis
    using four empty totaltime_not_NaN [of raw] totaltime_isFinite [of raw] by blast
qed

text \<open>C3, amended, at \<open>{ totaltime: 7200, visits: 60 }\<close>: both figures of \<open>totaltime\<close> are finite.\<close>

theorem normalize_finite_unless_overflow_witness:
  "wellFormed (Obj [(''totaltime'', Num (Fin 7200)), (''visits'', Num (Fin 60))])
   \<and> isFinite (val (totaltime (normalizeToStatsData
        (Obj [(''totaltime'', Num (Fin 7200)), (''visits'', Num (Fin 60))]))))
   \<and> isFinite (prev (totaltime (normalizeToStatsData
        (Obj [(''totaltime'', Num (Fin 7200)), (''visits'', Num (Fin 60))]))))"
proof -
  let ?raw = "Obj [(''totaltime'', Num (Fin 7200)), (''visits'', Num (Fin 60))]"
  have w: "wellFormed ?raw"
    by (simp add: inDoubleRange_def MAX_VALUE_def)
  have v: "val (visits (normalizeToStatsData ?raw)) = Fin 60"
    "prev (visits (normalizeToStatsData ?raw)) = Fin 0"
    by (simp_all add: normalizeToStatsData_def Let_def unwrapValPrev_def toNum_def isObject_def)
  have g: "\<not> (gt (val (visits (normalizeToStatsData ?raw))) (Fin 0)
            \<and> gt (Fin 1) (val (visits (normalizeToStatsData ?raw))))"
    "\<not> (gt (prev (visits (normalizeToStatsData ?raw))) (Fin 0)
            \<and> gt (Fin 1) (prev (visits (normalizeToStatsData ?raw))))"
    by (simp_all add: v)
  show ?thesis
    using w g normalize_finite_unless_overflow [of ?raw] by blast
qed

text \<open>
  C4, as stated, fails for \<open>totaltime\<close>: the bare number is taken as seconds and converted.
  \<open>{ totaltime: 120, visits: 2 }\<close> normalizes \<open>totaltime\<close> to one minute per visit, not to
  \<open>{ value: 120, prev: 0 }\<close>.
\<close>

theorem bare_totaltime_counterexample:
  "totaltime (normalizeToStatsData (Obj [(''totaltime'', Num (Fin 120)), (''visits'', Num (Fin 2))]))
     \<noteq> \<lparr> val = Fin 120, prev = Fin 0 \<rparr>"
  by (simp add: normalizeToStatsData_def Let_def unwrapValPrev_def toNum_def isObject_def
      fromExact_def overflow_threshold_def)

text \<open>
  C4, amended: each of \<open>pageviews\<close>, \<open>visitors\<close>, \<open>visits\<close> and \<open>bounces\<close> given as a bare finite
  number \<open>n\<close> normalizes to \<open>{ value: n, prev: 0 }\<close>, for instance \<open>pageviews: 42\<close> to
  \<open>{ value: 42, prev: 0 }\<close>. A bare finite number resolves to \<open>{ value: n, prev: 0 }\<close> for
  \<open>totaltime\<close> too, as seconds; its normalized \<open>value\<close> is then \<open>n / visits.value / 60\<close> when
  \<open>visits.value > 0\<close> and \<open>0\<close> otherwise, and its \<open>prev\<close> is \<open>0\<close>.
\<close>

theorem bare_number_metric:
  "(optProp raw ''pageviews'' = Num (Fin n)
      \<longrightarrow> pageviews (normalizeToStatsData raw) = \<lparr> val = Fin n, prev = Fin 0 \<rparr>)
   \<and> (optProp raw ''visitors'' = Num (Fin n)
      \<longrightarrow> visitors (normalizeToStatsData raw) = \<lparr> val = Fin n, prev = Fin 0 \<rparr>)
   \<and> (optProp raw ''visits'' = Num (Fin n)
      \<longrightarrow> visits (normalizeToStatsData raw) = \<lparr> val = Fin n, prev = Fin 0 \<rparr>)
   \<and> (optProp raw ''bounces'' = Num (Fin n)
      \<longrightarrow> bounces (normalizeToStatsData raw) = \<lparr> val = Fin n, prev = Fin 0 \<rparr>)
   \<and> unwrapValPrev (Num (Fin n)) = \<lparr> val = Fin n, prev = Fin 0 \<rparr>
   \<and> (optProp raw ''totaltime'' = Num (Fin n)
      \<longrightarrow> totaltime (normalizeToStatsData raw) =
           \<lparr> val = (if gt (val (visits (normalizeToStatsData raw))) (Fin 0)
                    then divide_num (divide_num (Fin n) (val (visits (normalizeToStatsData raw))))
                           (Fin 60)
                    else Fin 0),
             prev = Fin 0 \<rparr>)
   \<and> pageviews (normalizeToStatsData (Obj [(''pageviews'', Num (Fin 42))]))
       = \<lparr> val = Fin 42, prev = Fin 0 \<rparr>"
proof -
  have u: "unwrapValPrev (Num (Fin n)) = \<lparr> val = Fin n, prev = Fin 0 \<rparr>"
    by (simp add: unwrapValPrev_Num)
  have ex: "pageviews (normalizeToStatsData (Obj [(''pageviews'', Num (Fin 42))]))
       = \<lparr> val = Fin 42, prev = Fin 0 \<rparr>"
    by (simp add: normalize_fields unwrapValPrev_Num)
  have tt: "totaltime (normalizeToStatsData raw) =
           \<lparr> val = (if gt (val (visits (normalizeToStatsData raw))) (Fin 0)
                    then divide_num (divide_num (Fin n) (val (visits (normalizeToStatsData raw))))
                           (Fin 60)
                    else Fin 0),
             prev = Fin 0 \<rparr>"
    if h: "optProp raw ''totaltime'' = Num (Fin n)"
  proof -
    have "prev (unwrapValPrev (optProp raw ''totaltime'')) = Fin 0"
      by (simp add: h u)
    then have p: "prev (totaltime (normalizeToStatsData raw)) = Fin 0"
      by (rule totaltime_zero_seconds)
    have v: "val (totaltime (normalizeToStatsData raw)) =
        (if gt (val (visits (normalizeToStatsData raw))) (Fin 0)
         then divide_num (divide_num (Fin n) (val (visits (normalizeToStatsData raw)))) (Fin 60)
         else Fin 0)"
      by (simp add: normalize_totaltime_val normalize_fields h u)
    show ?thesis
      using p v by (cases "totaltime (normalizeToStatsData raw)") simp
  qed
  show ?thesis
    using u ex tt by (simp add: normalize_fields)
qed

text \<open>C4, amended, at \<open>{ visits: 2, totaltime: 120 }\<close>: \<open>visits\<close> is \<open>{ value: 2, prev: 0 }\<close>.\<close>

theorem bare_number_metric_witness:
  "optProp (Obj [(''visits'', Num (Fin 2)), (''totaltime'', Num (Fin 120))]) ''visits'' = Num (Fin 2)
   \<and> visits (normalizeToStatsData (Obj [(''visits'', Num (Fin 2)), (''totaltime'', Num (Fin 120))]))
       = \<lparr> val = Fin 2, prev = Fin 0 \<rparr>"
proof -
  have h: "optProp (Obj [(''visits'', Num (Fin 2)), (''totaltime'', Num (Fin 120))]) ''visits''
      = Num (Fin 2)"
    by simp
  show ?thesis
    using h bare_number_metric [of "Obj [(''visits'', Num (Fin 2)), (''totaltime'', Num (Fin 120))]" 2]
    by blast
qed

text \<open>
  C9: on an object-shaped input (\<open>typeof\<close> is \<open>"object"\<close>, not \<open>null\<close>) \<open>unwrapValPrev\<close> returns the
  directly coerced pair. The fall-through, taken when both fields coerce to \<open>0\<close>, coerces the
  object itself as a number, which gives \<open>0\<close>, so it returns \<open>{ 0, 0 }\<close> as well; and an object
  whose \<open>value\<close> coerces to \<open>0\<close> while its \<open>prev\<close> does not keeps that \<open>prev\<close>.
\<close>

theorem unwrapValPrev_object_is_coercedPair:
  "isObject maybe \<longrightarrow>
     unwrapValPrev maybe = coercedPair maybe
     \<and> \<lparr> val = toNum maybe (Fin 0), prev = Fin 0 \<rparr> = \<lparr> val = Fin 0, prev = Fin 0 \<rparr>
     \<and> (val (coercedPair maybe) = Fin 0 \<and> prev (coercedPair maybe) \<noteq> Fin 0
          \<longrightarrow> unwrapValPrev maybe
              = \<lparr> val = Fin 0, prev = toNum (optProp maybe ''prev'') (Fin 0) \<rparr>)"
proof
  assume o: "isObject maybe"
  have a: "unwrapValPrev maybe = coercedPair maybe"
    using o by (rule unwrapValPrev_object)
  have b: "toNum maybe (Fin 0) = Fin 0"
    using o by (rule toNum_isObject)
  have c: "unwrapValPrev maybe = \<lparr> val = Fin 0, prev = toNum (optProp maybe ''prev'') (Fin 0) \<rparr>"
    if "val (coercedPair maybe) = Fin 0"
    using that a by (simp add: coercedPair_def)
  show "unwrapValPrev maybe = coercedPair maybe
     \<and> \<lparr> val = toNum maybe (Fin 0), prev = Fin 0 \<rparr> = \<lparr> val = Fin 0, prev = Fin 0 \<rparr>
     \<and> (val (coercedPair maybe) = Fin 0 \<and> prev (coercedPair maybe) \<noteq> Fin 0
          \<longrightarrow> unwrapValPrev maybe
              = \<lparr> val = Fin 0, prev = toNum (optProp maybe ''prev'') (Fin 0) \<rparr>)"
    using a b c by simp
qed

text \<open>C9 at \<open>{ value: "n/a", prev: 7 }\<close>: the result is \<open>{ value: 0, prev: 7 }\<close>.\<close>

theorem unwrapValPrev_object_is_coercedPair_witness:
  "isObject (Obj [(''value'', Str ''n/a''), (''prev'', Num (Fin 7))])
   \<and> unwrapValPrev (Obj [(''value'', Str ''n/a''), (''prev'', Num (Fin 7))])
       = \<lparr> val = Fin 0, prev = Fin 7 \<rparr>"
proof -
  have o: "isObject (Obj [(''value'', Str ''n/a''), (''prev'', Num (Fin 7))])"
    by (simp add: isObject_def)
  have c: "coercedPair (Obj [(''value'', Str ''n/a''), (''prev'', Num (Fin 7))])
      = \<lparr> val = Fin 0, prev = Fin 7 \<rparr>"
    by (simp add: coercedPair_def toNum_def)
  show ?thesis
    using o c unwrapValPrev_object_is_coercedPair
      [of "Obj [(''value'', Str ''n/a''), (''prev'', Num (Fin 7))]"]
    by simp
qed

text \<open>
  C10: when the raw \<open>visits\<close> is absent or a bare number, the normalized \<open>visits.prev\<close> is \<open>0\<close>,
  and so is the normalized \<open>totaltime.prev\<close>, whatever the raw \<open>totaltime\<close> is.
\<close>

theorem bare_visits_zero_prev_totaltime:
  "optProp raw ''visits'' = Undefined \<or> (\<exists>n. optProp raw ''visits'' = Num n)
   \<Longrightarrow> prev (visits (normalizeToStatsData raw)) = Fin 0
       \<and> prev (totaltime (normalizeToStatsData raw)) = Fin 0"
proof -
  assume "optProp raw ''visits'' = Undefined \<or> (\<exists>n. optProp raw ''visits'' = Num n)"
  then have "prev (unwrapValPrev (optProp raw ''visits'')) = Fin 0"
    by (auto simp: unwrapValPrev_Num unwrapValPrev_Undefined)
  then show ?thesis
    by (simp add: normalize_totaltime_prev normalize_fields)
qed

text \<open>
  C10 at \<open>{ visits: 10, totaltime: { value: 1200, prev: 600 } }\<close>: the 600 seconds of the
  previous period are dropped.
\<close>

theorem bare_visits_zero_prev_totaltime_witness:
  "(optProp (Obj [(''visits'', Num (Fin 10)),
                  (''totaltime'', Obj [(''value'', Num (Fin 1200)), (''prev'', Num (Fin 600))])])
      ''visits'' = Undefined
    \<or> (\<exists>n. optProp (Obj [(''visits'', Num (Fin 10)),
                  (''totaltime'', Obj [(''value'', Num (Fin 1200)), (''prev'', Num (Fin 600))])])
      ''visits'' = Num n))
   \<and> prev (totaltime (normalizeToStatsData
        (Obj [(''visits'', Num (Fin 10)),
              (''totaltime'', Obj [(''value'', Num (Fin 1200)), (''prev'', Num (Fin 600))])])))
       = Fin 0"
proof -
  let ?raw = "Obj [(''visits'', Num (Fin 10)),
                  (''totaltime'', Obj [(''value'', Num (Fin 1200)), (''prev'', Num (Fin 600))])]"
  have h: "optProp ?raw ''visits'' = Undefined \<or> (\<exists>n. optProp ?raw ''visits'' = Num n)"
    by simp
  show ?thesis
    using h bare_visits_zero_prev_totaltime [OF h] by blast
qed

section \<open>Properties of the component\<close>

lemma fetchStats_failed:
  "failed outcome \<Longrightarrow> fetchStats outcome = Inr zeroStats \<or> (\<exists>e. fetchStats outcome = Inl e)"
  by (cases outcome) (auto simp: fetchStats_def)

lemma load_mounted_failed:
  "mounted w \<Longrightarrow> failed outcome \<Longrightarrow> load outcome w = Inr (setStats zeroStats w)"
  using fetchStats_failed [of outcome] by (auto simp: load_def)

lemma load_Inr: "\<exists>w'. load outcome w = Inr w'"
  by (simp add: load_def split: sum.splits)

lemma load_mounted_stats:
  "mounted w \<Longrightarrow> load outcome w = Inr w' \<Longrightarrow> stats w' \<noteq> None"
  by (auto simp: load_def setStats_def split: sum.splits)

text \<open>
  C5: the component starts in \<open>Loading\<close>. However the request ends, \<open>load\<close> lets no error out,
  and a mounted component is not in \<open>Loading\<close> afterwards; when the request fails (\<open>fetch\<close>
  throws, the status is not 2xx, or the body does not parse) a mounted, loading component ends
  in \<open>Ready\<close> with the all-zero snapshot. In particular that is where a freshly activated
  component ends.
\<close>

theorem failed_fetch_reaches_ready_zero:
  "phase activate = Loading
   \<and> (\<exists>w'. load outcome w = Inr w'
          \<and> (mounted w \<longrightarrow> phase w' \<noteq> Loading)
          \<and> (mounted w \<and> phase w = Loading \<and> failed outcome \<longrightarrow> phase w' = Ready zeroStats))
   \<and> (failed outcome
        \<longrightarrow> (\<exists>w'. run [Settle outcome] activate = Inr w' \<and> phase w' = Ready zeroStats))"
proof -
  obtain w' where w': "load outcome w = Inr w'"
    using load_Inr by blast
  have a: "phase w' \<noteq> Loading" if "mounted w"
    using load_mounted_stats [OF that w'] by (auto simp: phase_def)
  have b: "phase w' = Ready zeroStats" if "mounted w" "failed outcome"
    using load_mounted_failed [OF that] w' by (auto simp: phase_def setStats_def)
  have m: "mounted activate"
    by (simp add: activate_def)
  have c: "\<exists>w'. run [Settle outcome] activate = Inr w' \<and> phase w' = Ready zeroStats"
    if "failed outcome"
    using load_mounted_failed [OF m that] by (simp add: phase_def setStats_def)
  have l: "phase activate = Loading"
    by (simp add: phase_def activate_def)
  show ?thesis
    using l w' a b c by blast
qed

text \<open>C5 at a response with status 503: the component reaches the all-zero snapshot.\<close>

theorem failed_fetch_reaches_ready_zero_witness:
  "failed (Resolved \<lparr> res_status = 503, res_json = None \<rparr>)
   \<and> (\<exists>w'. run [Settle (Resolved \<lparr> res_status = 503, res_json = None \<rparr>)] activate = Inr w'
          \<and> phase w' = Ready zeroStats)"
proof -
  have f: "failed (Resolved \<lparr> res_status = 503, res_json = None \<rparr>)"
    by simp
  show ?thesis
    using f failed_fetch_reaches_ready_zero [of "Resolved \<lparr> res_status = 503, res_json = None \<rparr>"]
    by blast
qed

lemma step_unmounted:
  "\<not> mounted w \<Longrightarrow> \<exists>w'. step e w = Inr w' \<and> \<not> mounted w'
     \<and> stats w' = stats w \<and> setStats_calls w' = setStats_calls w"
  by (cases e) (auto simp: load_def cleanup_def split: sum.splits)

lemma run_unmounted:
  "\<not> mounted w \<Longrightarrow> \<exists>w'. run es w = Inr w' \<and> \<not> mounted w'
     \<and> stats w' = stats w \<and> setStats_calls w' = setStats_calls w"
proof (induction es arbitrary: w)
  case Nil
  then show ?case by simp
next
  case (Cons e es)
  from step_unmounted [OF Cons.prems, of e] obtain w1 where
    s: "step e w = Inr w1" and m: "\<not> mounted w1"
    and k: "stats w1 = stats w" "setStats_calls w1 = setStats_calls w"
    by blast
  from Cons.IH [OF m] obtain w2 where
    "run es w1 = Inr w2" "\<not> mounted w2" "stats w2 = stats w1"
    "setStats_calls w2 = setStats_calls w1"
    by blast
  then show ?case
    using s k by simp
qed

text \<open>
  C6: the cleanup returns normally and calls no setter; and whatever happens after it, on the
  success path as on the error path, ends normally with the log of setter calls and \<open>stats\<close>
  as the cleanup left them.
\<close>

theorem no_state_update_after_cleanup:
  "\<exists>w1 w2. cleanup w = Inr w1 \<and> run (Cleanup # es) w = Inr w2
     \<and> setStats_calls w1 = setStats_calls w \<and> stats w1 = stats w
     \<and> setStats_calls w2 = setStats_calls w1 \<and> stats w2 = stats w1"
proof -
  let ?w1 = "w \<lparr> mounted := False \<rparr>"
  have c: "cleanup w = Inr ?w1" by (simp add: cleanup_def)
  have "\<not> mounted ?w1" by simp
  from run_unmounted [OF this, of es] obtain w2 where
    "run es ?w1 = Inr w2" "stats w2 = stats ?w1" "setStats_calls w2 = setStats_calls ?w1"
    by blast
  then show ?thesis
    using c by simp
qed

text \<open>
  C6 on a component unmounted while the request is pending: a successful response and a
  rejection arriving afterwards call no setter.
\<close>

theorem no_state_update_after_cleanup_witness:
  "\<exists>w2. run [Cleanup,
              Settle (Resolved \<lparr> res_status = 200, res_json = Some (Obj []) \<rparr>),
              Settle (Rejected FetchFailed)] activate = Inr w2
     \<and> setStats_calls w2 = [] \<and> stats w2 = None"
  using no_state_update_after_cleanup
    [of activate "[Settle (Resolved \<lparr> res_status = 200, res_json = Some (Obj []) \<rparr>),
                   Settle (Rejected FetchFailed)]"]
  by (auto simp: activate_def)

text \<open>
  C7: in \<open>Ready\<close> with snapshot \<open>s\<close>, the label drawn for a view box with \<open>cx\<close> and \<open>cy\<close> shows the
  number \<open>s.visits.value\<close> and, 24 units below it, the caption \<open>Visits\<close>; and whenever a label
  is drawn at all, that is its number and its caption.
\<close>

theorem center_label_shows_visits:
  "stats w = Some s \<longrightarrow>
     (\<forall>x y. \<exists>d l. render w (Some \<lparr> cx = Some x, cy = Some y \<rparr>) = Chart d (Some l)
        \<and> tspan_child (label_number l) = NumberChild (val (visits s))
        \<and> tspan_child (label_caption l) = TextChild ''Visits''
        \<and> tspan_x (label_caption l) = tspan_x (label_number l)
        \<and> tspan_y (label_caption l) = tspan_y (label_number l) + 24)
     \<and> (\<forall>vb d l. render w vb = Chart d (Some l)
          \<longrightarrow> tspan_child (label_number l) = NumberChild (val (visits s))
              \<and> tspan_child (label_caption l) = TextChild ''Visits'')"
  by (auto simp: render_def labelContent_def visitsValue_def split: option.splits)

text \<open>C7 on a snapshot with 100 page views and 7 visits: the label shows 7.\<close>

theorem center_label_shows_visits_witness:
  "stats \<lparr> stats = Some (zeroStats \<lparr> pageviews := \<lparr> val = Fin 100, prev = Fin 0 \<rparr>,
                                      visits := \<lparr> val = Fin 7, prev = Fin 0 \<rparr> \<rparr>),
           mounted = True, setStats_calls = [] \<rparr>
     = Some (zeroStats \<lparr> pageviews := \<lparr> val = Fin 100, prev = Fin 0 \<rparr>,
                         visits := \<lparr> val = Fin 7, prev = Fin 0 \<rparr> \<rparr>)
   \<and> (\<exists>d l. render \<lparr> stats = Some (zeroStats \<lparr> pageviews := \<lparr> val = Fin 100, prev = Fin 0 \<rparr>,
                                                 visits := \<lparr> val = Fin 7, prev = Fin 0 \<rparr> \<rparr>),
                      mounted = True, setStats_calls = [] \<rparr>
               (Some \<lparr> cx = Some 50, cy = Some 50 \<rparr>) = Chart d (Some l)
          \<and> tspan_child (label_number l) = NumberChild (Fin 7))"
proof -
  let ?s = "zeroStats \<lparr> pageviews := \<lparr> val = Fin 100, prev = Fin 0 \<rparr>,
                        visits := \<lparr> val = Fin 7, prev = Fin 0 \<rparr> \<rparr>"
  let ?w = "\<lparr> stats = Some ?s, mounted = True, setStats_calls = [] \<rparr>"
  have h: "stats ?w = Some ?s"
    by simp
  have v: "val (visits ?s) = Fin 7"
    by simp
  from center_label_shows_visits [of ?w ?s] h
  have "\<exists>d l. render ?w (Some \<lparr> cx = Some 50, cy = Some 50 \<rparr>) = Chart d (Some l)
          \<and> tspan_child (label_number l) = NumberChild (val (visits ?s))"
    by blast
  then show ?thesis
    using h v by simp
qed

section \<open>Properties of the proxy handlers\<close>

lemma newResponse_200: "newResponse b 200 = Inr \<lparr> resp_body = b, resp_status = 200 \<rparr>"
  by (simp add: newResponse_def toUint16_def nullBodyStatus_def)

lemma newResponse_500: "newResponse b 500 = Inr \<lparr> resp_body = b, resp_status = 500 \<rparr>"
  by (simp add: newResponse_def toUint16_def nullBodyStatus_def)

lemma newResponse_accepted:
  assumes "200 \<le> toUint16 n" "toUint16 n \<le> 599" "\<not> nullBodyStatus (toUint16 n)"
  shows "newResponse b n = Inr \<lparr> resp_body = b, resp_status = toUint16 n \<rparr>"
  using assms by (simp add: newResponse_def Let_def)

lemma newResponse_refused:
  assumes "toUint16 n < 200 \<or> 599 < toUint16 n \<or> nullBodyStatus (toUint16 n)"
    and "\<not> nullBody b"
  shows "\<exists>e. newResponse b n = Inl e"
  using assms by (auto simp: newResponse_def Let_def)

lemma GET_stats_ok:
  assumes "getWebsiteStats c websiteId (metricsData now) = Returns r" "api_ok r"
  shows "GET_stats c now = Inr \<lparr> resp_body = JSON_stringify (api_data r), resp_status = 200 \<rparr>"
  using assms by (simp add: GET_stats_def newResponse_200)

lemma GET_stats_relayed:
  assumes "getWebsiteStats c websiteId (metricsData now) = Returns r" "\<not> api_ok r"
    and "200 \<le> toUint16 (api_status r)" "toUint16 (api_status r) \<le> 599"
    and "\<not> nullBodyStatus (toUint16 (api_status r))"
  shows "GET_stats c now =
           Inr \<lparr> resp_body =
                   JSON_stringify (Obj [(''error'', Str ''Failed to fetch website metrics'')]),
                 resp_status = toUint16 (api_status r) \<rparr>"
  using assms(1,2) newResponse_accepted [OF assms(3,4,5)] by (simp add: GET_stats_def)

lemma GET_stats_refused:
  assumes "getWebsiteStats c websiteId (metricsData now) = Returns r" "\<not> api_ok r"
    and "toUint16 (api_status r) < 200 \<or> 599 < toUint16 (api_status r)
         \<or> nullBodyStatus (toUint16 (api_status r))"
  shows "GET_stats c now =
           Inr \<lparr> resp_body =
                   JSON_stringify (Obj [(''error'', Str ''Failed to fetch website metrics'')]),
                 resp_status = 500 \<rparr>"
proof -
  have "\<not> nullBody (JSON_stringify (Obj [(''error'', Str ''Failed to fetch website metrics'')]))"
    by simp
  from newResponse_refused [OF assms(3) this]
  obtain e where "newResponse
      (JSON_stringify (Obj [(''error'', Str ''Failed to fetch website metrics'')]))
      (api_status r) = Inl e"
    by blast
  then show ?thesis
    using assms(1,2) by (simp add: GET_stats_def newResponse_500)
qed

lemma GET_stats_throws:
  assumes "getWebsiteStats c websiteId (metricsData now) = Throws"
  shows "GET_stats c now =
           Inr \<lparr> resp_body =
                   JSON_stringify (Obj [(''error'', Str ''Failed to fetch website metrics'')]),
                 resp_status = 500 \<rparr>"
  using assms by (simp add: GET_stats_def newResponse_500)

lemma GET_pageviews_ok:
  assumes "getWebsitePageviews c websiteId (pageviewsData now) = Returns r" "api_ok r"
  shows "GET_pageviews c now =
           Inr \<lparr> resp_body = JSON_stringify (api_data r), resp_status = 200 \<rparr>"
  using assms by (simp add: GET_pageviews_def newResponse_200)

lemma GET_pageviews_relayed:
  assumes "getWebsitePageviews c websiteId (pageviewsData now) = Returns r" "\<not> api_ok r"
    and "200 \<le> toUint16 (api_status r)" "toUint16 (api_status r) \<le> 599"
    and "\<not> nullBodyStatus (toUint16 (api_status r))"
  shows "GET_pageviews c now =
           Inr \<lparr> resp_body =
                   JSON_stringify (Obj [(''error'', Str ''Failed to fetch website pageviews'')]),
                 resp_status = toUint16 (api_status r) \<rparr>"
  using assms(1,2) newResponse_accepted [OF assms(3,4,5)] by (simp add: GET_pageviews_def)

lemma GET_pageviews_refused:
  assumes "getWebsitePageviews c websiteId (pageviewsData now) = Returns r" "\<not> api_ok r"
    and "toUint16 (api_status r) < 200 \<or> 599 < toUint16 (api_status r)
         \<or> nullBodyStatus (toUint16 (api_status r))"
  shows "GET_pageviews c now =
           Inr \<lparr> resp_body =
                   JSON_stringify (Obj [(''error'', Str ''Failed to fetch website pageviews'')]),
                 resp_status = 500 \<rparr>"
proof -
  have "\<not> nullBody (JSON_stringify (Obj [(''error'', Str ''Failed to fetch website pageviews'')]))"
    by simp
  from newResponse_refused [OF assms(3) this]
  obtain e where "newResponse
      (JSON_stringify (Obj [(''error'', Str ''Failed to fetch website pageviews'')]))
      (api_status r) = Inl e"
    by blast
  then show ?thesis
    using assms(1,2) by (simp add: GET_pageviews_def newResponse_500)
qed

lemma GET_pageviews_throws:
  assumes "getWebsitePageviews c websiteId (pageviewsData now) = Throws"
  shows "GET_pageviews c now =
           Inr \<lparr> resp_body =
                   JSON_stringify (Obj [(''error'', Str ''Failed to fetch website pageviews'')]),
                 resp_status = 500 \<rparr>"
  using assms by (simp add: GET_pageviews_def newResponse_500)

text \<open>
  C8, as stated, fails: when the client reports not \<open>ok\<close> with a status the \<open>Response\<close>
  constructor refuses, the constructor throws inside the \<open>try\<close> and the \<open>catch\<close> answers 500.
  With the upstream status 304 the statistics handler answers 500, not 304; with the upstream
  status 999 the page views handler answers 500, not 999.
\<close>

theorem refused_status_counterexample:
  "GET_stats
     (stubClient
        (Returns \<lparr> api_ok = False, api_data = Undefined, api_status = 304,
                   api_error = Str ''Not Modified'' \<rparr>)
        Throws) 0
     = Inr \<lparr> resp_body =
               JSON_stringify (Obj [(''error'', Str ''Failed to fetch website metrics'')]),
             resp_status = 500 \<rparr>
   \<and> GET_stats
     (stubClient
        (Returns \<lparr> api_ok = False, api_data = Undefined, api_status = 304,
                   api_error = Str ''Not Modified'' \<rparr>)
        Throws) 0
     \<noteq> Inr \<lparr> resp_body =
               JSON_stringify (Obj [(''error'', Str ''Failed to fetch website metrics'')]),
             resp_status = 304 \<rparr>
   \<and> GET_pageviews
     (stubClient Throws
        (Returns \<lparr> api_ok = False, api_data = Undefined, api_status = 999,
                   api_error = Str ''Request denied'' \<rparr>)) 0
     = Inr \<lparr> resp_body =
               JSON_stringify (Obj [(''error'', Str ''Failed to fetch website pageviews'')]),
             resp_status = 500 \<rparr>"
  by (simp add: GET_stats_def GET_pageviews_def stubClient_def newResponse_def toUint16_def
      nullBodyStatus_def)

text \<open>
  C8, amended: a handler never throws. It answers with status 200 and the serialized upstream
  data when the client reports \<open>ok\<close>; with its error message and the upstream status when the
  client reports not \<open>ok\<close> and the status, read as an unsigned 16-bit integer, is one the
  \<open>Response\<close> constructor accepts with a body (200 to 599 other than 204, 205 and 304); and
  with its error message and status 500 when the client reports not \<open>ok\<close> with a status the
  constructor refuses, or when the call throws. A status below 65536 is read as it is.
\<close>

theorem proxy_handlers_relay:
  "(getWebsiteStats c websiteId (metricsData now) = Returns r \<and> api_ok r
      \<longrightarrow> GET_stats c now
            = Inr \<lparr> resp_body = JSON_stringify (api_data r), resp_status = 200 \<rparr>)
   \<and> (getWebsiteStats c websiteId (metricsData now) = Returns r \<and> \<not> api_ok r
        \<and> 200 \<le> toUint16 (api_status r) \<and> toUint16 (api_status r) \<le> 599
        \<and> \<not> nullBodyStatus (toUint16 (api_status r))
      \<longrightarrow> GET_stats c now =
            Inr \<lparr> resp_body =
                    JSON_stringify (Obj [(''error'', Str ''Failed to fetch website metrics'')]),
                  resp_status = toUint16 (api_status r) \<rparr>)
   \<and> (getWebsiteStats c websiteId (metricsData now) = Returns r \<and> \<not> api_ok r
        \<and> (toUint16 (api_status r) < 200 \<or> 599 < toUint16 (api_status r)
             \<or> nullBodyStatus (toUint16 (api_status r)))
      \<longrightarrow> GET_stats c now =
            Inr \<lparr> resp_body =
                    JSON_stringify (Obj [(''error'', Str ''Failed to fetch website metrics'')]),
                  resp_status = 500 \<rparr>)
   \<and> (getWebsiteStats c websiteId (metricsData now) = Throws
      \<longrightarrow> GET_stats c now =
            Inr \<lparr> resp_body =
                    JSON_stringify (Obj [(''error'', Str ''Failed to fetch website metrics'')]),
                  resp_status = 500 \<rparr>)
   \<and> (getWebsitePageviews c websiteId (pageviewsData now) = Returns r \<and> api_ok r
      \<longrightarrow> GET_pageviews c now
            = Inr \<lparr> resp_body = JSON_stringify (api_data r), resp_status = 200 \<rparr>)
   \<and> (getWebsitePageviews c websiteId (pageviewsData now) = Returns r \<and> \<not> api_ok r
        \<and> 200 \<le> toUint16 (api_status r) \<and> toUint16 (api_status r) \<le> 599
        \<and> \<not> nullBodyStatus (toUint16 (api_status r))
      \<longrightarrow> GET_pageviews c now =
            Inr \<lparr> resp_body =
                    JSON_stringify (Obj [(''error'', Str ''Failed to fetch website pageviews'')]),
                  resp_status = toUint16 (api_status r) \<rparr>)
   \<and> (getWebsitePageviews c websiteId (pageviewsData now) = Returns r \<and> \<not> api_ok r
        \<and> (toUint16 (api_status r) < 200 \<or> 599 < toUint16 (api_status r)
             \<or> nullBodyStatus (toUint16 (api_status r)))
      \<longrightarrow> GET_pageviews c now =
            Inr \<lparr> resp_body =
                    JSON_stringify (Obj [(''error'', Str ''Failed to fetch website pageviews'')]),
                  resp_status = 500 \<rparr>)
   \<and> (getWebsitePageviews c websiteId (pageviewsData now) = Throws
      \<longrightarrow> GET_pageviews c now =
            Inr \<lparr> resp_body =
                    JSON_stringify (Obj [(''error'', Str ''Failed to fetch website pageviews'')]),
                  resp_status = 500 \<rparr>)
   \<and> (api_status r < 65536 \<longrightarrow> toUint16 (api_status r) = api_status r)"
proof -
  have u: "toUint16 (api_status r) = api_status r" if "api_status r < 65536"
    using that by (simp add: toUint16_def)
  show ?thesis
    using GET_stats_ok [of c now r] GET_stats_relayed [of c now r] GET_stats_refused [of c now r]
      GET_stats_throws [of c now] GET_pageviews_ok [of c now r] GET_pageviews_relayed [of c now r]
      GET_pageviews_refused [of c now r] GET_pageviews_throws [of c now] u
    by blast
qed

text \<open>
  C8, amended, with a client whose statistics call reports not \<open>ok\<close> with status 404 and whose
  page views call throws: the answers carry 404 and 500.
\<close>

theorem proxy_handlers_relay_witness:
  "getWebsiteStats
       (stubClient
          (Returns \<lparr> api_ok = False, api_data = Undefined, api_status = 404,
                     api_error = Str ''Not Found'' \<rparr>)
          Throws) websiteId (metricsData 0)
     = Returns \<lparr> api_ok = False, api_data = Undefined, api_status = 404,
                 api_error = Str ''Not Found'' \<rparr>
   \<and> GET_stats
       (stubClient
          (Returns \<lparr> api_ok = False, api_data = Undefined, api_status = 404,
                     api_error = Str ''Not Found'' \<rparr>)
          Throws) 0
     = Inr \<lparr> resp_body =
               JSON_stringify (Obj [(''error'', Str ''Failed to fetch website metrics'')]),
             resp_status = 404 \<rparr>
   \<and> GET_pageviews
       (stubClient
          (Returns \<lparr> api_ok = False, api_data = Undefined, api_status = 404,
                     api_error = Str ''Not Found'' \<rparr>)
          Throws) 0
     = Inr \<lparr> resp_body =
               JSON_stringify (Obj [(''error'', Str ''Failed to fetch website pageviews'')]),
             resp_status = 500 \<rparr>"
proof -
  let ?r = "\<lparr> api_ok = False, api_data = Undefined, api_status = 404,
              api_error = Str ''Not Found'' \<rparr>"
  let ?c = "stubClient (Returns ?r) Throws"
  have s: "getWebsiteStats ?c websiteId (metricsData 0) = Returns ?r"
    by (simp add: stubClient_def)
  have p: "getWebsitePageviews ?c websiteId (pageviewsData 0) = Throws"
    by (simp add: stubClient_def)
  have n: "\<not> api_ok ?r" "200 \<le> toUint16 (api_status ?r)" "toUint16 (api_status ?r) \<le> 599"
    "\<not> nullBodyStatus (toUint16 (api_status ?r))" "toUint16 (api_status ?r) = 404"
    by (simp_all add: toUint16_def nullBodyStatus_def)
  show ?thesis
    using s p n proxy_handlers_relay [of ?c 0 ?r] by simp
qed

end
